theory Spec2Isabelle
  imports Main "HOL-Library.Code_Target_Nat"
begin

section \<open>JavaScript values and the runtime primitives the grid relies on\<close>

text \<open>
  Rows of the grid are \<^verbatim>\<open>Record<string, unknown>\<close>: plain JavaScript objects whose
  field values are arbitrary. Numbers are modelled as integers (the rows of the
  test suite hold integers only; floating point is outside this model). An object is
  the list of its own enumerable properties in the order JavaScript enumerates them
  (\<^verbatim>\<open>Object.entries\<close>, \<^verbatim>\<open>JSON.stringify\<close>, spread): array-index keys first, in
  ascending numeric order, then all other string keys in the order they were created.
\<close>

datatype jsval =
    JUndefined
  | JNull
  | JBool bool
  | JNum int
  | JStr string
  | JArr "jsval list"
  | JObj "(string \<times> jsval) list"

type_synonym 'v jsobject = "(string \<times> 'v) list"

type_synonym row = "jsval jsobject"

subsection \<open>Numbers as strings\<close>

definition digit_char :: "nat \<Rightarrow> char" where
  "digit_char d = ''0123456789'' ! d"

fun digits :: "nat \<Rightarrow> string" where
  "digits n = (if n < 10 then [digit_char n] else digits (n div 10) @ [digit_char (n mod 10)])"

declare digits.simps [simp del]

definition number_to_string :: "int \<Rightarrow> string" where
  "number_to_string n = (if n < 0 then CHR ''-'' # digits (nat (- n)) else digits (nat n))"

definition is_digit :: "char \<Rightarrow> bool" where
  "is_digit c = (c \<in> set ''0123456789'')"

definition digit_value :: "char \<Rightarrow> nat" where
  "digit_value c = of_char c - 48"

definition digits_value :: "string \<Rightarrow> nat" where
  "digits_value s = foldl (\<lambda>a c. 10 * a + digit_value c) 0 s"

text \<open>
  An array index is a canonical numeric string (the decimal form of its own value)
  below \<open>2^32 - 1\<close>; such property keys are enumerated before all others.
\<close>

definition is_array_index :: "string \<Rightarrow> bool" where
  "is_array_index s =
     (s \<noteq> [] \<and> list_all is_digit s \<and> digits (digits_value s) = s \<and> digits_value s < 4294967295)"

subsection \<open>Property access on plain objects\<close>

definition obj_get :: "'v jsobject \<Rightarrow> string \<Rightarrow> 'v option" where
  "obj_get obj k = map_of obj k"

definition obj_has :: "'v jsobject \<Rightarrow> string \<Rightarrow> bool" where
  "obj_has obj k = (k \<in> set (map fst obj))"

text \<open>A new array-index key takes its place among the leading array-index keys.\<close>

fun obj_insert_index :: "string \<Rightarrow> 'v \<Rightarrow> 'v jsobject \<Rightarrow> 'v jsobject" where
  "obj_insert_index k v [] = [(k, v)]"
| "obj_insert_index k v (p # ps) =
     (if is_array_index (fst p) \<and> digits_value (fst p) < digits_value k
      then p # obj_insert_index k v ps
      else (k, v) # p # ps)"

text \<open>
  \<^verbatim>\<open>obj[k] = v\<close>: an existing key keeps its position and gets the new value; a new
  array-index key is sorted in; any other new key goes to the end.
\<close>

definition obj_set :: "string \<Rightarrow> 'v \<Rightarrow> 'v jsobject \<Rightarrow> 'v jsobject" where
  "obj_set k v obj =
     (if obj_has obj k then map (\<lambda>p. if fst p = k then (k, v) else p) obj
      else if is_array_index k then obj_insert_index k v obj
      else obj @ [(k, v)])"

text \<open>\<^verbatim>\<open>delete obj[k]\<close>\<close>

definition obj_delete :: "string \<Rightarrow> 'v jsobject \<Rightarrow> 'v jsobject" where
  "obj_delete k obj = filter (\<lambda>p. fst p \<noteq> k) obj"

subsection \<open>Conversion of a value to a property key\<close>

fun join :: "string \<Rightarrow> string list \<Rightarrow> string" where
  "join sep [] = []"
| "join sep [x] = x"
| "join sep (x # y # ys) = x @ sep @ join sep (y # ys)"

text \<open>
  \<^verbatim>\<open>draft[id]\<close> converts \<^verbatim>\<open>id\<close> with ToString: the number 4 and the string
  \<^verbatim>\<open>'4'\<close> name the same property, and an undefined identity names the property
  \<^verbatim>\<open>'undefined'\<close>.
\<close>

fun js_to_string :: "jsval \<Rightarrow> string" where
  "js_to_string JUndefined = ''undefined''"
| "js_to_string JNull = ''null''"
| "js_to_string (JBool b) = (if b then ''true'' else ''false'')"
| "js_to_string (JNum n) = number_to_string n"
| "js_to_string (JStr s) = s"
| "js_to_string (JArr xs) =
     join '','' (map (\<lambda>x. if x = JUndefined \<or> x = JNull then [] else js_to_string x) xs)"
| "js_to_string (JObj fs) = ''[object Object]''"

definition to_property_key :: "jsval \<Rightarrow> string" where
  "to_property_key v = js_to_string v"

text \<open>
  \<^verbatim>\<open>a === b\<close> on row identities. The identity accessor is declared to return
  \<^verbatim>\<open>string | number\<close> (or yields \<^verbatim>\<open>undefined\<close> for an absent field); on these
  primitives strict equality is equality of type and value.
\<close>

definition strict_equals :: "jsval \<Rightarrow> jsval \<Rightarrow> bool" where
  "strict_equals a b = (a = b)"

subsection \<open>\<^verbatim>\<open>JSON.stringify\<close>\<close>

definition hex_char :: "nat \<Rightarrow> char" where
  "hex_char d = ''0123456789abcdef'' ! d"

definition quote_json_char :: "char \<Rightarrow> string" where
  "quote_json_char c =
     (if c = CHR 0x22 then [CHR 0x5C, CHR 0x22]
      else if c = CHR 0x5C then [CHR 0x5C, CHR 0x5C]
      else if c = CHR 0x08 then [CHR 0x5C, CHR ''b'']
      else if c = CHR 0x0C then [CHR 0x5C, CHR ''f'']
      else if c = CHR 0x0A then [CHR 0x5C, CHR ''n'']
      else if c = CHR 0x0D then [CHR 0x5C, CHR ''r'']
      else if c = CHR 0x09 then [CHR 0x5C, CHR ''t'']
      else if (of_char c :: nat) < 32
        then [CHR 0x5C, CHR ''u'', CHR ''0'', CHR ''0'',
              hex_char (of_char c div 16), hex_char (of_char c mod 16)]
      else [c])"

definition quote_json_string :: "string \<Rightarrow> string" where
  "quote_json_string s = CHR 0x22 # concat (map quote_json_char s) @ [CHR 0x22]"

text \<open>
  The serialisation of a value, \<open>None\<close> where \<^verbatim>\<open>JSON.stringify\<close> yields
  \<^verbatim>\<open>undefined\<close>. An undefined array element is written \<^verbatim>\<open>null\<close>; a property
  whose value is undefined is left out.
\<close>

fun json_stringify :: "jsval \<Rightarrow> string option" where
  "json_stringify JUndefined = None"
| "json_stringify JNull = Some ''null''"
| "json_stringify (JBool b) = Some (if b then ''true'' else ''false'')"
| "json_stringify (JNum n) = Some (number_to_string n)"
| "json_stringify (JStr s) = Some (quote_json_string s)"
| "json_stringify (JArr xs) =
     Some (''['' @ join '','' (map (\<lambda>x. case json_stringify x of None \<Rightarrow> ''null'' | Some s \<Rightarrow> s) xs)
           @ '']'')"
| "json_stringify (JObj fs) =
     Some (''{'' @ join '','' (concat (map (\<lambda>p. case json_stringify (snd p) of
                                              None \<Rightarrow> []
                                            | Some s \<Rightarrow> [quote_json_string (fst p) @ '':'' @ s]) fs))
           @ ''}'')"

section \<open>The grid component\<close>

text \<open>\<^verbatim>\<open>RowModificationState\<close> and \<^verbatim>\<open>Modification<T>\<close>: a deleted record has no data.\<close>

datatype modification =
    Added row
  | Modified row
  | Deleted

type_synonym ChangeState = "modification jsobject"

text \<open>
  The props \<^verbatim>\<open>rowData\<close> and \<^verbatim>\<open>idField\<close> and the state \<^verbatim>\<open>changes\<close> of one
  component instance. Every operation below returns the instance after the call
  to \<^verbatim>\<open>updateChanges\<close>.
\<close>

record grid =
  rowData :: "row list"
  idField :: string
  changes :: ChangeState

definition deepEqual :: "jsval \<Rightarrow> jsval \<Rightarrow> bool" where
  "deepEqual obj1 obj2 = (json_stringify obj1 = json_stringify obj2)"

text \<open>\<^verbatim>\<open>row[idField]\<close>: undefined when the row has no such field.\<close>

definition getRowId :: "grid \<Rightarrow> row \<Rightarrow> jsval" where
  "getRowId g r = (case obj_get r (idField g) of None \<Rightarrow> JUndefined | Some v \<Rightarrow> v)"

text \<open>\<^verbatim>\<open>changes[id]\<close>\<close>

definition change_at :: "ChangeState \<Rightarrow> jsval \<Rightarrow> modification option" where
  "change_at ch ident = obj_get ch (to_property_key ident)"

text \<open>\<^verbatim>\<open>rowData.find(r => getRowId(r) === id)\<close>\<close>

definition find_original :: "grid \<Rightarrow> jsval \<Rightarrow> row option" where
  "find_original g ident = List.find (\<lambda>r. strict_equals (getRowId g r) ident) (rowData g)"




definition undoRow :: "grid \<Rightarrow> row \<Rightarrow> grid" where
  "undoRow g r = g\<lparr>changes := obj_delete (to_property_key (getRowId g r)) (changes g)\<rparr>"

definition addRow :: "grid \<Rightarrow> row \<Rightarrow> grid" where
  "addRow g r = g\<lparr>changes := obj_set (to_property_key (getRowId g r)) (Added r) (changes g)\<rparr>"

text \<open>The body of the loop of \<^verbatim>\<open>deleteSelectedRows\<close>, on the draft.\<close>

definition delete_row :: "grid \<Rightarrow> row \<Rightarrow> ChangeState \<Rightarrow> ChangeState" where
  "delete_row g r draft =
     (let ident = getRowId g r in
      case change_at draft ident of
        Some (Added d) \<Rightarrow> obj_delete (to_property_key ident) draft
      | _ \<Rightarrow> obj_set (to_property_key ident) Deleted draft)"

text \<open>
  The argument \<open>gridApi\<close> is \<open>None\<close> while the grid is not ready, and otherwise holds
  what \<^verbatim>\<open>gridApi.getSelectedRows()\<close> returns.
\<close>

definition deleteSelectedRows :: "grid \<Rightarrow> row list option \<Rightarrow> grid" where
  "deleteSelectedRows g gridApi =
     (case gridApi of
        None \<Rightarrow> g
      | Some selectedRows \<Rightarrow> g\<lparr>changes := fold (delete_row g) selectedRows (changes g)\<rparr>)"

definition reset :: "grid \<Rightarrow> grid" where
  "reset g = g\<lparr>changes := []\<rparr>"

text \<open>
  The body of the \<^verbatim>\<open>forEach\<close> of \<^verbatim>\<open>modifySelectedRows\<close>. The callback runs on an
  Immer draft of the selected row, so it is a function from the row to the
  modified row.
\<close>

definition modify_row :: "grid \<Rightarrow> (row \<Rightarrow> row) \<Rightarrow> row \<Rightarrow> ChangeState \<Rightarrow> ChangeState" where
  "modify_row g callback selectedRow draft =
     (let ident = getRowId g selectedRow;
          currentMod = change_at draft ident
      in if currentMod = Some Deleted then draft
         else
           let modifiedRow = callback selectedRow in
           case currentMod of
             Some (Added d) \<Rightarrow>
               if \<not> deepEqual (JObj selectedRow) (JObj modifiedRow)
               then obj_set (to_property_key ident) (Added modifiedRow) draft
               else draft
           | _ \<Rightarrow>
               (case find_original g ident of
                  Some originalRow \<Rightarrow>
                    if \<not> deepEqual (JObj originalRow) (JObj modifiedRow)
                    then obj_set (to_property_key ident) (Modified modifiedRow) draft
                    else obj_delete (to_property_key ident) draft
                | None \<Rightarrow> draft))"

definition modifySelectedRows :: "grid \<Rightarrow> row list option \<Rightarrow> (row \<Rightarrow> row) \<Rightarrow> grid" where
  "modifySelectedRows g gridApi callback =
     (case gridApi of
        None \<Rightarrow> g
      | Some selectedRows \<Rightarrow>
          g\<lparr>changes := fold (modify_row g callback) selectedRows (changes g)\<rparr>)"

text \<open>
  A cell edit request carries the row shown (\<^verbatim>\<open>event.data\<close>), the column's field
  (\<open>None\<close> when the column has none; an empty name is falsy as well) and the new
  value. \<^verbatim>\<open>{...row, [field]: newValue}\<close> is a fresh object.
\<close>

definition onCellEditRequest :: "grid \<Rightarrow> row \<Rightarrow> string option \<Rightarrow> jsval \<Rightarrow> grid" where
  "onCellEditRequest g r field newValue =
     (case field of
        None \<Rightarrow> g
      | Some f \<Rightarrow>
          if f = [] then g
          else
            let ident = getRowId g r in
            if change_at (changes g) ident = Some Deleted then g
            else
              let updatedRow = obj_set f newValue r;
                  draft = changes g
              in g\<lparr>changes :=
                   (case change_at draft ident of
                      Some (Added d) \<Rightarrow> obj_set (to_property_key ident) (Added updatedRow) draft
                    | _ \<Rightarrow>
                        (case find_original g ident of
                           Some originalRow \<Rightarrow>
                             if \<not> deepEqual (JObj originalRow) (JObj updatedRow)
                             then obj_set (to_property_key ident) (Modified updatedRow) draft
                             else obj_delete (to_property_key ident) draft
                         | None \<Rightarrow> draft))\<rparr>)"

definition getChanges :: "grid \<Rightarrow> ChangeState" where
  "getChanges g = changes g"

subsection \<open>Sequences of operations\<close>

datatype operation =
    OpAddRow row
  | OpDeleteSelectedRows "row list option"
  | OpModifySelectedRows "row list option" "row \<Rightarrow> row"
  | OpCellEditRequest row "string option" jsval
  | OpUndoRow row
  | OpReset

fun apply_operation :: "operation \<Rightarrow> grid \<Rightarrow> grid" where
  "apply_operation (OpAddRow r) g = addRow g r"
| "apply_operation (OpDeleteSelectedRows api) g = deleteSelectedRows g api"
| "apply_operation (OpModifySelectedRows api cb) g = modifySelectedRows g api cb"
| "apply_operation (OpCellEditRequest r f v) g = onCellEditRequest g r f v"
| "apply_operation (OpUndoRow r) g = undoRow g r"
| "apply_operation OpReset g = reset g"

definition run :: "operation list \<Rightarrow> grid \<Rightarrow> grid" where
  "run ops g = fold apply_operation ops g"

subsection \<open>Notions used in the statements\<close>

text \<open>The property key under which the changes hold a row.\<close>

definition row_key :: "grid \<Rightarrow> row \<Rightarrow> string" where
  "row_key g r = to_property_key (getRowId g r)"

text \<open>What \<^verbatim>\<open>modifySelectedRows\<close> leaves at the key of a row it visits.\<close>

definition modified_entry ::
  "grid \<Rightarrow> (row \<Rightarrow> row) \<Rightarrow> row \<Rightarrow> modification option \<Rightarrow> modification option" where
  "modified_entry g callback r e =
     (case e of
        Some Deleted \<Rightarrow> Some Deleted
      | Some (Added d) \<Rightarrow>
          Some (Added (if deepEqual (JObj r) (JObj (callback r)) then d else callback r))
      | _ \<Rightarrow>
          (case find_original g (getRowId g r) of
             Some originalRow \<Rightarrow>
               if deepEqual (JObj originalRow) (JObj (callback r)) then None
               else Some (Modified (callback r))
           | None \<Rightarrow> e))"










text \<open>
  A modified record differs from the original row: some row of \<^verbatim>\<open>rowData\<close>
  has the record's key, is the row that the lookup of its identity finds, and is
  not deep-equal to the record's data.
\<close>

definition differs_from_original :: "grid \<Rightarrow> string \<Rightarrow> row \<Rightarrow> bool" where
  "differs_from_original g k d =
     list_ex (\<lambda>r. row_key g r = k \<and> find_original g (getRowId g r) = Some r
                  \<and> \<not> deepEqual (JObj r) (JObj d)) (rowData g)"

definition records_differ :: "grid \<Rightarrow> ChangeState \<Rightarrow> bool" where
  "records_differ g ch =
     list_all (\<lambda>p. case snd p of Modified d \<Rightarrow> differs_from_original g (fst p) d | _ \<Rightarrow> True) ch"

definition modified_records_differ :: "grid \<Rightarrow> bool" where
  "modified_records_differ g = records_differ g (changes g)"

subsection \<open>The rows of the test suite\<close>

definition alice :: row where
  "alice = [(''id'', JStr ''1''), (''name'', JStr ''Alice''), (''age'', JNum 28), (''active'', JBool True)]"

definition bob :: row where
  "bob = [(''id'', JStr ''2''), (''name'', JStr ''Bob''), (''age'', JNum 35), (''active'', JBool False)]"

definition charlie :: row where
  "charlie = [(''id'', JStr ''3''), (''name'', JStr ''Charlie''), (''age'', JNum 42), (''active'', JBool True)]"

definition diana :: row where
  "diana = [(''id'', JStr ''4''), (''name'', JStr ''Diana''), (''age'', JNum 31), (''active'', JBool True)]"

definition mockInitialData :: "row list" where
  "mockInitialData = [alice, bob, charlie]"

definition mock_grid :: grid where
  "mock_grid = \<lparr>rowData = mockInitialData, idField = ''id'', changes = []\<rparr>"


section \<open>Lemmas\<close>

subsection \<open>Property access\<close>

lemma map_of_obj_insert_index:
  "k \<notin> set (map fst obj) \<Longrightarrow> map_of (obj_insert_index k v obj) = (map_of obj)(k \<mapsto> v)"
  by (induction obj) (auto simp: fun_eq_iff)

lemma map_of_update_in_place:
  "map_of (map (\<lambda>p. if fst p = k then (k, v) else p) obj) k' =
     (if k' = k then map_option (\<lambda>_. v) (map_of obj k) else map_of obj k')"
  by (induction obj) auto

lemma obj_get_set:
  "obj_get (obj_set k v obj) k' = (if k' = k then Some v else obj_get obj k')"
proof (cases "obj_has obj k")
  case True
  then show ?thesis
    by (auto simp: obj_get_def obj_set_def obj_has_def map_of_update_in_place
             dest: weak_map_of_SomeI)
next
  case False
  then have notin: "k \<notin> set (map fst obj)" by (simp add: obj_has_def)
  show ?thesis
  proof (cases "is_array_index k")
    case True
    with False show ?thesis
      using map_of_obj_insert_index [OF notin, of v] by (simp add: obj_get_def obj_set_def)
  next
    case False
    with \<open>\<not> obj_has obj k\<close> notin show ?thesis
      by (auto simp: obj_get_def obj_set_def map_of_eq_None_iff [symmetric] map_add_def
               split: option.splits)
  qed
qed

lemma obj_get_delete:
  "obj_get (obj_delete k obj) k' = (if k' = k then None else obj_get obj k')"
  by (induction obj) (auto simp: obj_get_def obj_delete_def)

lemma set_obj_insert_index: "set (obj_insert_index k v obj) = insert (k, v) (set obj)"
  by (induction obj) auto

lemma set_obj_set: "set (obj_set k v obj) \<subseteq> insert (k, v) (set obj)"
  by (auto simp: obj_set_def set_obj_insert_index split: if_splits)

lemma set_obj_delete: "set (obj_delete k obj) \<subseteq> set obj"
  by (auto simp: obj_delete_def)


subsection \<open>The operations read the props and replace the changes\<close>

lemma getRowId_changes [simp]: "getRowId (g\<lparr>changes := c\<rparr>) r = getRowId g r"
  by (simp add: getRowId_def)

lemma find_original_changes [simp]: "find_original (g\<lparr>changes := c\<rparr>) i = find_original g i"
  by (simp add: find_original_def)

lemma row_key_changes [simp]: "row_key (g\<lparr>changes := c\<rparr>) r = row_key g r"
  by (simp add: row_key_def)


lemma idField_apply_operation: "idField (apply_operation op g) = idField g"
  by (cases op)
     (simp_all add: addRow_def deleteSelectedRows_def modifySelectedRows_def
        onCellEditRequest_def undoRow_def reset_def Let_def split: option.splits)

subsection \<open>One step of a loop over the selected rows\<close>





lemma modify_row_other:
  "k \<noteq> row_key g r \<Longrightarrow> obj_get (modify_row g cb r d) k = obj_get d k"
  by (simp add: modify_row_def row_key_def change_at_def obj_get_set obj_get_delete Let_def
           split: option.splits modification.splits)

lemma modify_row_own:
  "obj_get (modify_row g cb r d) (row_key g r) = modified_entry g cb r (obj_get d (row_key g r))"
  by (simp add: modify_row_def modified_entry_def row_key_def change_at_def obj_get_set
        obj_get_delete Let_def split: option.splits modification.splits)

lemma modify_row_deleted:
  "change_at d (getRowId g r) = Some Deleted \<Longrightarrow> modify_row g cb r d = d"
  by (simp add: modify_row_def Let_def)

lemma modify_row_keeps_deleted:
  "obj_get d k = Some Deleted \<Longrightarrow> obj_get (modify_row g cb r d) k = Some Deleted"
  by (cases "k = row_key g r")
     (simp_all add: modify_row_other modify_row_own modified_entry_def)

lemma fold_modify_row_skips_deleted:
  "obj_get d k = Some Deleted \<Longrightarrow>
   fold (modify_row g cb) rs d = fold (modify_row g cb) (filter (\<lambda>x. row_key g x \<noteq> k) rs) d"
proof (induction rs arbitrary: d)
  case Nil
  then show ?case by simp
next
  case (Cons x xs)
  show ?case
  proof (cases "row_key g x = k")
    case True
    with Cons.prems have "modify_row g cb x d = d"
      by (simp add: modify_row_deleted change_at_def row_key_def)
    with True Cons show ?thesis by simp
  next
    case False
    have "obj_get (modify_row g cb x d) k = Some Deleted"
      using Cons.prems by (rule modify_row_keeps_deleted)
    from Cons.IH [OF this] False show ?thesis by simp
  qed
qed

subsection \<open>Deleted and added records under modification\<close>

lemma fold_modify_row_keeps_deleted:
  "obj_get d k = Some Deleted \<Longrightarrow> obj_get (fold (modify_row g cb) rs d) k = Some Deleted"
  by (induction rs arbitrary: d) (simp_all add: modify_row_keeps_deleted)



lemma find_original_None:
  "find_original g i = None \<longleftrightarrow> (\<forall>x \<in> set (rowData g). getRowId g x \<noteq> i)"
  by (auto simp: find_original_def strict_equals_def find_None_iff)

lemma onCellEditRequest_deleted:
  "change_at (changes g) (getRowId g r) = Some Deleted \<Longrightarrow> onCellEditRequest g r field v = g"
  by (simp add: onCellEditRequest_def Let_def split: option.splits)

subsection \<open>A cell edit and a modification of one selected row\<close>




subsection \<open>Modified records differ from the original rows\<close>

lemma records_differ_iff:
  "records_differ g ch \<longleftrightarrow>
     (\<forall>k d. (k, Modified d) \<in> set ch \<longrightarrow> differs_from_original g k d)"
  by (auto simp: records_differ_def list_all_iff split: modification.splits)

lemma differs_from_original_changes [simp]:
  "differs_from_original (g\<lparr>changes := c\<rparr>) k d = differs_from_original g k d"
  by (simp add: differs_from_original_def)

lemma records_differ_changes [simp]:
  "records_differ (g\<lparr>changes := c\<rparr>) ch = records_differ g ch"
  by (simp add: records_differ_iff)

lemma records_differ_delete:
  "records_differ g ch \<Longrightarrow> records_differ g (obj_delete k ch)"
  using set_obj_delete [of k ch] by (auto simp: records_differ_iff)

lemma records_differ_set:
  assumes "records_differ g ch" and "\<And>d. m = Modified d \<Longrightarrow> differs_from_original g k d"
  shows "records_differ g (obj_set k m ch)"
  using assms set_obj_set [of k m ch] by (auto simp: records_differ_iff)

lemma found_original_differs:
  assumes "find_original g i = Some original"
    and "\<not> deepEqual (JObj original) (JObj d)"
  shows "differs_from_original g (to_property_key i) d"
proof -
  from assms(1) have m: "original \<in> set (rowData g)" and i: "getRowId g original = i"
    by (auto simp: find_original_def strict_equals_def find_Some_iff in_set_conv_nth)
  with assms show ?thesis
    by (auto simp: differs_from_original_def list_ex_iff row_key_def)
qed

lemma records_differ_delete_row:
  "records_differ g ch \<Longrightarrow> records_differ g (delete_row g r ch)"
  by (auto simp: delete_row_def Let_def intro: records_differ_delete records_differ_set
           split: option.splits modification.splits)

lemma records_differ_modify_row:
  "records_differ g ch \<Longrightarrow> records_differ g (modify_row g cb r ch)"
  by (auto simp: modify_row_def Let_def
           intro: records_differ_delete records_differ_set found_original_differs
           split: option.splits modification.splits)

lemma records_differ_fold:
  assumes "\<And>r ch. records_differ g ch \<Longrightarrow> records_differ g (step r ch)"
  shows "records_differ g ch \<Longrightarrow> records_differ g (fold step rs ch)"
  by (induction rs arbitrary: ch) (simp_all add: assms)

lemma modified_records_differ_step:
  assumes "modified_records_differ g"
  shows "modified_records_differ (apply_operation op g)"
proof (cases op)
  case (OpAddRow r)
  with assms show ?thesis
    by (auto simp: modified_records_differ_def addRow_def intro: records_differ_set)
next
  case (OpDeleteSelectedRows api)
  with assms show ?thesis
    by (cases api)
       (simp_all add: modified_records_differ_def deleteSelectedRows_def
          records_differ_fold records_differ_delete_row)
next
  case (OpModifySelectedRows api cb)
  with assms show ?thesis
    by (cases api)
       (simp_all add: modified_records_differ_def modifySelectedRows_def
          records_differ_fold records_differ_modify_row)
next
  case (OpCellEditRequest r f v)
  with assms show ?thesis
    by (auto simp: modified_records_differ_def onCellEditRequest_def Let_def
             intro: records_differ_delete records_differ_set found_original_differs
             split: option.splits modification.splits)
next
  case (OpUndoRow r)
  with assms show ?thesis
    by (auto simp: modified_records_differ_def undoRow_def intro: records_differ_delete)
next
  case OpReset
  then show ?thesis
    by (simp add: modified_records_differ_def reset_def records_differ_def)
qed

subsection \<open>The enumeration order of the changes\<close>















subsection \<open>Decimal digits\<close>














subsection \<open>Quoted strings\<close>







subsection \<open>The serialisation determines a value without \<^verbatim>\<open>undefined\<close>\<close>














section \<open>Properties of the grid\<close>













text \<open>
  C6 (as amended). No operation checks the identity field. For a row in which the
  identity field is absent, the identity is \<^verbatim>\<open>undefined\<close>, addRow does not fail,
  and the row is tracked as an added record under the property key
  \<^verbatim>\<open>'undefined'\<close>.
\<close>

theorem addRow_without_identity:
  assumes "obj_get r (idField g) = None"
  shows "getRowId g r = JUndefined
       \<and> obj_get (changes (addRow g r)) ''undefined'' = Some (Added r)"
  using assms by (simp add: getRowId_def addRow_def to_property_key_def obj_get_set)

text \<open>A row of the demo page, which has no field \<^verbatim>\<open>id\<close>.\<close>

theorem addRow_without_identity_witness:
  "obj_get [(''name'', JStr ''Eve''), (''age'', JNum 26)] (idField mock_grid) = None
   \<and> obj_get (changes (addRow mock_grid [(''name'', JStr ''Eve''), (''age'', JNum 26)])) ''undefined''
       = Some (Added [(''name'', JStr ''Eve''), (''age'', JNum 26)])"
proof -
  have h: "obj_get [(''name'', JStr ''Eve''), (''age'', JNum 26)] (idField mock_grid) = None"
    by code_simp
  show ?thesis using h addRow_without_identity [OF h] by simp
qed

text \<open>
  addRow of a row with only a name, on the grid of the tests: the call is not
  rejected, and the changes afterwards are the single key \<^verbatim>\<open>'undefined'\<close>.
\<close>

theorem addRow_without_identity_tracked:
  "getRowId mock_grid [(''name'', JStr ''Frank'')] = JUndefined
   \<and> changes (addRow mock_grid [(''name'', JStr ''Frank'')])
       = [(''undefined'', Added [(''name'', JStr ''Frank'')])]"
  by code_simp

text \<open>
  C7 (as amended). With no changes, and then after every operation and every
  sequence of operations, each modified record differs from the original row of
  its identity by the deep-equality test: modifySelectedRows and the cell edit
  request remove the record instead of storing data deep-equal to the original
  row. Added records are stored without any comparison.
\<close>

theorem modified_records_differ_invariant:
  "modified_records_differ (reset g)
   \<and> (modified_records_differ g \<longrightarrow>
        modified_records_differ (apply_operation op g) \<and> modified_records_differ (run ops g))"
proof (intro conjI impI)
  show "modified_records_differ (reset g)"
    by (simp add: modified_records_differ_def reset_def records_differ_def)
next
  assume start: "modified_records_differ g"
  then show "modified_records_differ (apply_operation op g)"
    by (rule modified_records_differ_step)
  have "modified_records_differ h \<Longrightarrow> modified_records_differ (fold apply_operation ops h)" for h
    by (induction ops arbitrary: h) (simp_all add: modified_records_differ_step)
  with start show "modified_records_differ (run ops g)"
    by (simp add: run_def)
qed

text \<open>A cell edit, and a modification, a deletion and an addition in a row.\<close>

theorem modified_records_differ_invariant_witness:
  "modified_records_differ mock_grid
   \<and> modified_records_differ (apply_operation (OpCellEditRequest alice (Some ''age'') (JNum 99)) mock_grid)
   \<and> modified_records_differ
        (run [OpModifySelectedRows (Some [alice]) (obj_set ''age'' (JNum 99)),
              OpDeleteSelectedRows (Some [bob]), OpAddRow diana] mock_grid)"
proof -
  have h: "modified_records_differ mock_grid" by code_simp
  note t = modified_records_differ_invariant [of mock_grid
      "OpCellEditRequest alice (Some ''age'') (JNum 99)"
      "[OpModifySelectedRows (Some [alice]) (obj_set ''age'' (JNum 99)),
        OpDeleteSelectedRows (Some [bob]), OpAddRow diana]", THEN conjunct2, THEN mp, OF h]
  show ?thesis by (intro conjI) (fact h t [THEN conjunct1] t [THEN conjunct2])+
qed

text \<open>
  addRow of Alice's own row: the changes then hold an added record whose data is
  deep-equal to the original row of that identity.
\<close>

theorem addRow_equal_to_original_stored:
  "find_original mock_grid (getRowId mock_grid alice) = Some alice
   \<and> deepEqual (JObj alice) (JObj alice)
   \<and> change_at (changes (addRow mock_grid alice)) (getRowId mock_grid alice) = Some (Added alice)"
  by code_simp



text \<open>
  C9. When the changes hold a deleted record at the identity of a row, then
  modifySelectedRows, whatever the selection, leaves a deleted record there and
  does what it does on the selection without the rows of that key, and a cell edit
  request on that row returns the instance as it is. No operation has an error
  result.
\<close>

theorem deleted_row_skipped:
  assumes "change_at (changes g) (getRowId g r) = Some Deleted"
  shows "change_at (changes (modifySelectedRows g (Some selectedRows) callback)) (getRowId g r)
           = Some Deleted
       \<and> modifySelectedRows g (Some selectedRows) callback
           = modifySelectedRows g
               (Some (filter (\<lambda>x. row_key g x \<noteq> row_key g r) selectedRows)) callback
       \<and> onCellEditRequest g r field newValue = g"
proof -
  from assms have d: "obj_get (changes g) (row_key g r) = Some Deleted"
    by (simp add: change_at_def row_key_def)
  have "obj_get (fold (modify_row g callback) selectedRows (changes g)) (row_key g r) = Some Deleted"
    using d by (rule fold_modify_row_keeps_deleted)
  then have one: "change_at (changes (modifySelectedRows g (Some selectedRows) callback))
      (getRowId g r) = Some Deleted"
    by (simp add: modifySelectedRows_def change_at_def row_key_def)
  have two: "modifySelectedRows g (Some selectedRows) callback
      = modifySelectedRows g
          (Some (filter (\<lambda>x. row_key g x \<noteq> row_key g r) selectedRows)) callback"
    using fold_modify_row_skips_deleted [OF d, of g callback selectedRows]
    by (simp add: modifySelectedRows_def)
  from one two onCellEditRequest_deleted [OF assms] show ?thesis by simp
qed

text \<open>Bob is deleted, then selected with Alice and modified, or edited in a cell.\<close>

theorem deleted_row_skipped_witness:
  "change_at (changes (deleteSelectedRows mock_grid (Some [bob]))) (JStr ''2'') = Some Deleted
   \<and> change_at (changes (modifySelectedRows (deleteSelectedRows mock_grid (Some [bob]))
          (Some [alice, bob]) (obj_set ''age'' (JNum 1)))) (JStr ''2'') = Some Deleted
   \<and> onCellEditRequest (deleteSelectedRows mock_grid (Some [bob])) bob (Some ''age'') (JNum 1)
        = deleteSelectedRows mock_grid (Some [bob])"
proof -
  let ?g = "deleteSelectedRows mock_grid (Some [bob])"
  have i: "getRowId ?g bob = JStr ''2''" by code_simp
  have h: "change_at (changes ?g) (getRowId ?g bob) = Some Deleted" by code_simp
  note t = deleted_row_skipped [OF h, of "[alice, bob]" "obj_set ''age'' (JNum 1)"
      "Some ''age''" "JNum 1"]
  show ?thesis
    using h t [THEN conjunct1] t [THEN conjunct2, THEN conjunct2] by (simp add: i)
qed

text \<open>
  C10. When no row of \<^verbatim>\<open>rowData\<close> has the identity of the edited row and the
  changes hold no added record at it, a cell edit request returns the instance as
  it is: no modified record is created, and there is no error result.
\<close>

theorem cell_edit_unknown_row_dropped:
  assumes "\<forall>x \<in> set (rowData g). getRowId g x \<noteq> getRowId g r"
    and "\<forall>d. change_at (changes g) (getRowId g r) \<noteq> Some (Added d)"
  shows "onCellEditRequest g r field newValue = g"
proof -
  from assms(1) have "find_original g (getRowId g r) = None"
    by (simp add: find_original_None)
  with assms(2) show ?thesis
    by (simp add: onCellEditRequest_def Let_def split: option.splits modification.splits)
qed

text \<open>A cell edit on Diana's row, which is neither an original row nor added.\<close>

theorem cell_edit_unknown_row_dropped_witness:
  "find_original mock_grid (getRowId mock_grid diana) = None
   \<and> change_at (changes mock_grid) (getRowId mock_grid diana) = None
   \<and> onCellEditRequest mock_grid diana (Some ''age'') (JNum 50) = mock_grid"
proof -
  have f: "find_original mock_grid (getRowId mock_grid diana) = None" by code_simp
  then have a: "\<forall>x \<in> set (rowData mock_grid). getRowId mock_grid x \<noteq> getRowId mock_grid diana"
    by (simp add: find_original_None)
  have n: "change_at (changes mock_grid) (getRowId mock_grid diana) = None" by code_simp
  then have b: "\<forall>d. change_at (changes mock_grid) (getRowId mock_grid diana) \<noteq> Some (Added d)"
    by simp
  note t = cell_edit_unknown_row_dropped [OF a b, of "Some ''age''" "JNum 50"]
  show ?thesis by (intro conjI) (fact f n t)+
qed

end
